theory Spec2Isabelle
  imports Main
begin

section \<open>Data model of the admin layer (web/admin.py, web/forms.py)\<close>

text \<open>
  The Django models are used by the admin code through their attributes only. Each model
  is a record holding the attributes the admin code reads or writes; a many-to-many
  relation of a role or an override (\<open>permissions\<close>, \<open>restrictions\<close>) is the set of
  related rows.
  Python's unbounded integers are \<open>int\<close>; primary keys are \<open>nat\<close>.
\<close>

datatype py_error = KeyError | DoesNotExist | IntegrityError | PermissionDenied

text \<open>A row of \<open>django.contrib.auth.models.Permission\<close>.\<close>

record permission =
  codename :: string
  content_type :: nat

text \<open>
  A row of \<open>Role\<close>. \<open>index\<close> is the rank set by manual ordering
  (\<open>SortableAdminMixin\<close>); \<open>permissions\<close> and \<open>restrictions\<close> are the global
  allow and deny sets.
\<close>

record role =
  role_id :: nat
  slug :: string
  name :: string
  index :: int
  is_staff :: bool
  permissions :: "permission set"
  restrictions :: "permission set"

text \<open>
  A row of \<open>User\<close>. \<open>operation_index\<close> is a property of the model, defined outside
  these sources; the admin code only reads it. The many-to-many relation \<open>user.roles\<close>
  is not part of the row: it is a table of its own, below.
\<close>

record user =
  pk :: "nat option"
  username :: string
  email :: string
  is_active :: bool
  is_superuser :: bool
  operation_index :: int

text \<open>
  Python truthiness of \<open>obj\<close> in \<open>if obj and ...\<close>: a model instance is truthy,
  \<open>None\<close> is not. An optional argument \<open>obj=None\<close> is an \<open>option\<close>.
\<close>

section \<open>RoleAdmin\<close>

text \<open>
  \<^verbatim>\<open>
  def has_delete_permission(self, request, obj=None):
      if obj and obj.slug in ['everyone', 'registered']:
          return False
      return super().has_delete_permission(request, obj)
  \<close>
  The framework's check \<open>super().has_delete_permission\<close> is a parameter.
\<close>

definition RoleAdmin_has_delete_permission ::
  "(user \<Rightarrow> role option \<Rightarrow> bool) \<Rightarrow> user \<Rightarrow> role option \<Rightarrow> bool" where
  "RoleAdmin_has_delete_permission super_has_delete_permission request_user obj =
     (case obj of
        Some r \<Rightarrow>
          if slug r \<in> set [''everyone'', ''registered''] then False
          else super_has_delete_permission request_user obj
      | None \<Rightarrow> super_has_delete_permission request_user obj)"

text \<open>
  \<^verbatim>\<open>
  def has_change_permission(self, request, obj=None):
      if obj and not request.user.is_superuser and obj.index < request.user.operation_index:
          return False
      return super().has_change_permission(request, obj)
  \<close>
\<close>

definition RoleAdmin_has_change_permission ::
  "(user \<Rightarrow> role option \<Rightarrow> bool) \<Rightarrow> user \<Rightarrow> role option \<Rightarrow> bool" where
  "RoleAdmin_has_change_permission super_has_change_permission request_user obj =
     (case obj of
        Some r \<Rightarrow>
          if \<not> is_superuser request_user \<and> index r < operation_index request_user then False
          else super_has_change_permission request_user obj
      | None \<Rightarrow> super_has_change_permission request_user obj)"

text \<open>
  \<^verbatim>\<open>
  def get_readonly_fields(self, request, obj=None):
      if obj and obj.slug in ['everyone', 'registered']:
          return self.readonly_fields + ("slug",)
      return self.readonly_fields
  \<close>
  \<open>self.readonly_fields\<close> is the class attribute of the framework's \<open>ModelAdmin\<close>,
  a parameter here.
\<close>

definition RoleAdmin_get_readonly_fields ::
  "string list \<Rightarrow> user \<Rightarrow> role option \<Rightarrow> string list" where
  "RoleAdmin_get_readonly_fields readonly_fields request_user obj =
     (case obj of
        Some r \<Rightarrow>
          if slug r \<in> set [''everyone'', ''registered''] then readonly_fields @ [''slug'']
          else readonly_fields
      | None \<Rightarrow> readonly_fields)"

section \<open>AdvancedUserAdmin\<close>

text \<open>
  \<^verbatim>\<open>
  def has_change_permission(self, request, obj=None):
      if obj and not request.user.is_superuser and obj.operation_index <= request.user.operation_index:
          return False
      return super().has_change_permission(request, obj)
  \<close>
\<close>

definition AdvancedUserAdmin_has_change_permission ::
  "(user \<Rightarrow> user option \<Rightarrow> bool) \<Rightarrow> user \<Rightarrow> user option \<Rightarrow> bool" where
  "AdvancedUserAdmin_has_change_permission super_has_change_permission request_user obj =
     (case obj of
        Some u \<Rightarrow>
          if \<not> is_superuser request_user \<and> operation_index u \<le> operation_index request_user
          then False
          else super_has_change_permission request_user obj
      | None \<Rightarrow> super_has_change_permission request_user obj)"

text \<open>
  The user table is explicit state: its rows by primary key, the many-to-many relation
  \<open>user.roles\<close> (the ids of the roles related to the row of a key) and the next key to
  hand out. \<open>u.roles\<close> of an instance is a manager over this relation for the
  instance's key: \<open>u.roles.all()\<close> reads it and \<open>u.roles.set(...)\<close> writes it, at
  once and in the table, whatever the instance holds.
\<close>

record user_table =
  rows :: "nat \<rightharpoonup> user"
  user_roles :: "nat \<Rightarrow> nat set"
  next_pk :: nat

definition User_objects_get :: "user_table \<Rightarrow> nat \<Rightarrow> py_error + user" where
  "User_objects_get db i = (case rows db i of None \<Rightarrow> Inl DoesNotExist | Some u \<Rightarrow> Inr u)"

definition roles_all :: "user_table \<Rightarrow> nat \<Rightarrow> nat set" where
  "roles_all db i = user_roles db i"

definition roles_set :: "user_table \<Rightarrow> nat \<Rightarrow> nat set \<Rightarrow> user_table" where
  "roles_set db i related = db\<lparr>user_roles := (user_roles db)(i := related)\<rparr>"

text \<open>The framework's \<open>obj.save()\<close>: the row is written under its key, or inserted.\<close>

definition Model_save :: "user_table \<Rightarrow> user \<Rightarrow> user_table" where
  "Model_save db obj =
     (case pk obj of
        Some i \<Rightarrow> db\<lparr>rows := (rows db)(i \<mapsto> obj)\<rparr>
      | None \<Rightarrow>
          db\<lparr>rows := (rows db)(next_pk db \<mapsto> obj\<lparr>pk := Some (next_pk db)\<rparr>),
             next_pk := Suc (next_pk db)\<rparr>)"

text \<open>
  \<^verbatim>\<open>
  def save_model(self, request, obj, form, change):
      if obj.pk:
          target = User.objects.get(id=obj.id)
          if change:
              if not request.user.is_superuser:
                  obj.is_superuser = target.is_superuser
              if not request.user.has_perm('roles.manage_roles'):
                  obj.roles.set(target.roles.all())
      super().save_model(request, obj, form, change)
  \<close>
  \<open>obj\<close> is the instance carrying the submitted field values. Truthiness of
  \<open>obj.pk\<close>: \<open>None\<close> and \<open>0\<close> are falsy. \<open>User.objects.get\<close> raises
  \<open>DoesNotExist\<close> when no row has the key. \<open>target\<close> is fetched by the key of
  \<open>obj\<close>, so \<open>obj.roles\<close> and \<open>target.roles\<close> are managers over the relation of
  the same key: the \<open>set\<close> writes the stored relation back to itself. \<open>has_perm\<close> is
  defined outside these sources and is a parameter. \<open>super().save_model\<close> is the
  framework's \<open>obj.save()\<close>; it does not touch the relation.
\<close>

definition AdvancedUserAdmin_save_model ::
  "(user \<Rightarrow> string \<Rightarrow> bool) \<Rightarrow> user_table \<Rightarrow> user \<Rightarrow> user \<Rightarrow> bool \<Rightarrow> py_error + user_table" where
  "AdvancedUserAdmin_save_model has_perm db request_user obj change =
     (case pk obj of
        None \<Rightarrow> Inr (Model_save db obj)
      | Some i \<Rightarrow>
          if i \<noteq> 0 then
            (case User_objects_get db i of
               Inl e \<Rightarrow> Inl e
             | Inr target \<Rightarrow>
                 if change then
                   (let obj1 = (if \<not> is_superuser request_user
                                then obj\<lparr>is_superuser := is_superuser target\<rparr> else obj);
                        db1 = (if \<not> has_perm request_user ''roles.manage_roles''
                               then roles_set db i (roles_all db i) else db)
                    in Inr (Model_save db1 obj1))
                 else Inr (Model_save db obj))
          else Inr (Model_save db obj))"






section \<open>Role choices of the forms\<close>

text \<open>
  \<open>Role.objects.exclude(slug__in=['everyone', 'registered'])\<close>, over the rows of the
  role table.
\<close>

definition exclude_default_roles :: "role list \<Rightarrow> role list" where
  "exclude_default_roles Role_objects =
     filter (\<lambda>r. slug r \<notin> set [''everyone'', ''registered'']) Role_objects"

text \<open>
  \<^verbatim>\<open>
  def __init__(self, *args, **kwargs):
      super().__init__(*args, **kwargs)
      if 'roles' in self.fields:
          self.fields['roles'].queryset = Role.objects.exclude(slug__in=['everyone', 'registered'])
  \<close>
  \<open>self.fields\<close> maps a field's name to the queryset of its choices.
\<close>

definition AdvancedUserChangeForm_init ::
  "(string \<rightharpoonup> role list) \<Rightarrow> role list \<Rightarrow> (string \<rightharpoonup> role list)" where
  "AdvancedUserChangeForm_init form_fields Role_objects =
     (if ''roles'' \<in> dom form_fields
      then form_fields(''roles'' \<mapsto> exclude_default_roles Role_objects)
      else form_fields)"

text \<open>
  \<^verbatim>\<open>
  roles = forms.ModelMultipleChoiceField(
      label=..., queryset=Role.objects.exclude(slug__in=['everyone', 'registered']),
      required=False)
  \<close>
\<close>

definition InviteForm_roles :: "role list \<Rightarrow> role list" where
  "InviteForm_roles Role_objects = exclude_default_roles Role_objects"

section \<open>Python dictionaries of the cleaned form data\<close>

text \<open>
  A dictionary is an association list in insertion order. \<open>d.get(k, {})\<close> of the
  cleaned data is \<open>get_default\<close>: a missing entry reads as the empty collection.
  \<open>d[k]\<close> raises \<open>KeyError\<close> on a missing key. A collection is truthy when it is not
  empty.
\<close>

type_synonym perms_dict = "(string \<times> string list) list"

definition get_default :: "'a list option \<Rightarrow> 'a list" where
  "get_default v = (case v of None \<Rightarrow> [] | Some d \<Rightarrow> d)"

definition subscript :: "('k \<times> 'v) list \<Rightarrow> 'k \<Rightarrow> py_error + 'v" where
  "subscript d k = (case map_of d k of None \<Rightarrow> Inl KeyError | Some v \<Rightarrow> Inr v)"

text \<open>
  The permission data of a form field holds the two lists \<open>allow\<close> and \<open>deny\<close>:
  both subscripts succeed.
\<close>

definition has_allow_deny :: "perms_dict \<Rightarrow> bool" where
  "has_allow_deny perms_data =
     (map_of perms_data ''allow'' \<noteq> None \<and> map_of perms_data ''deny'' \<noteq> None)"

text \<open>
  \<open>Permission.objects.filter(codename__in=names, content_type=ct)\<close>, over the rows of
  the permission table.
\<close>

definition Permission_objects_filter ::
  "permission list \<Rightarrow> string list \<Rightarrow> nat \<Rightarrow> permission set" where
  "Permission_objects_filter Permission_objects names ct =
     set (filter (\<lambda>p. codename p \<in> set names \<and> content_type p = ct) Permission_objects)"

section \<open>RoleForm\<close>

text \<open>
  The cleaned data of the role form: the model fields the form holds (a field that the
  form does not hold, such as a read-only one, is \<open>None\<close> and keeps the instance's
  value) and the \<open>_perms_\<close> entry.
\<close>

record role_cleaned_data =
  cd_slug :: "string option"
  cd_name :: "string option"
  cd_is_staff :: "bool option"
  cd_perms :: "perms_dict option"

text \<open>\<open>super().save(commit=False)\<close>: the form's model fields are written to the instance.\<close>

definition construct_role :: "role \<Rightarrow> role_cleaned_data \<Rightarrow> role" where
  "construct_role instance cd =
     instance\<lparr>slug := (case cd_slug cd of None \<Rightarrow> slug instance | Some v \<Rightarrow> v),
              name := (case cd_name cd of None \<Rightarrow> name instance | Some v \<Rightarrow> v),
              is_staff := (case cd_is_staff cd of None \<Rightarrow> is_staff instance | Some v \<Rightarrow> v)\<rparr>"

text \<open>
  \<^verbatim>\<open>
  def save(self, commit=True):
      instance = super().save(commit=False)
      instance.save()
      perms_data = self.cleaned_data.get('_perms_', {})
      if perms_data:
          content_type = get_role_permissions_content_type()
          instance.permissions.clear()
          instance.restrictions.clear()
          if perms_data['allow']:
              perms = Permission.objects.filter(codename__in=perms_data['allow'], content_type=content_type)
              instance.permissions.set(perms)
          if perms_data['deny']:
              restrictions = Permission.objects.filter(codename__in=perms_data['deny'], content_type=content_type)
              instance.restrictions.set(restrictions)
      if commit:
          instance.save()
      return instance
  \<close>
  The result is the saved instance. The first \<open>instance.save()\<close> persists it whatever
  \<open>commit\<close> is, and the relations are written at once, so \<open>commit\<close> does not change
  the result. \<open>get_role_permissions_content_type()\<close> is defined outside these sources;
  its value is the parameter \<open>role_ct\<close>.
\<close>

definition RoleForm_save ::
  "permission list \<Rightarrow> nat \<Rightarrow> role \<Rightarrow> role_cleaned_data \<Rightarrow> py_error + role" where
  "RoleForm_save Permission_objects role_ct instance0 cd =
     (let instance = construct_role instance0 cd;
          perms_data = get_default (cd_perms cd)
      in if perms_data \<noteq> [] then
           (let cleared = instance\<lparr>permissions := {}, restrictions := {}\<rparr>
            in case subscript perms_data ''allow'' of
                 Inl e \<Rightarrow> Inl e
               | Inr allow \<Rightarrow>
                   (let with_perms =
                          (if allow \<noteq> []
                           then cleared\<lparr>permissions :=
                                  Permission_objects_filter Permission_objects allow role_ct\<rparr>
                           else cleared)
                    in case subscript perms_data ''deny'' of
                         Inl e \<Rightarrow> Inl e
                       | Inr deny \<Rightarrow>
                           Inr (if deny \<noteq> []
                                then with_perms\<lparr>restrictions :=
                                       Permission_objects_filter Permission_objects deny role_ct\<rparr>
                                else with_perms)))
         else Inr instance)"

section \<open>CategoryForm\<close>

text \<open>
  A row of \<open>RolePermissionsOverride\<close>, and a \<open>Category\<close> with the rows its
  \<open>permissions_override\<close> relation holds.
\<close>

record role_permissions_override =
  ov_role_id :: nat
  ov_permissions :: "permission set"
  ov_restrictions :: "permission set"

record category =
  cat_name :: string
  is_indexed :: bool
  permissions_override :: "role_permissions_override list"

record category_cleaned_data =
  cd_cat_name :: "string option"
  cd_is_indexed :: "bool option"
  cd_perms_override :: "(nat \<times> perms_dict) list option"
  cd_add_override_roles :: "role list option"
  cd_remove_override_roles :: "role list option"

definition construct_category :: "category \<Rightarrow> category_cleaned_data \<Rightarrow> category" where
  "construct_category instance cd =
     instance\<lparr>cat_name := (case cd_cat_name cd of None \<Rightarrow> cat_name instance | Some v \<Rightarrow> v),
              is_indexed := (case cd_is_indexed cd of None \<Rightarrow> is_indexed instance | Some v \<Rightarrow> v)\<rparr>"

text \<open>
  \<open>RolePermissionsOverride.objects.create(role_id=...)\<close> and
  \<open>...create(role=role)\<close>: a new row with empty relations. The row refers to a role by
  a foreign key (the lookup \<open>Role.objects.filter(rolepermissionsoverride__in=...)\<close> of
  the form goes through it), so creating a row for an id that no row of the role table has
  fails with \<open>IntegrityError\<close>, and the save with it.
\<close>

definition RolePermissionsOverride_objects_create ::
  "role list \<Rightarrow> nat \<Rightarrow> py_error + role_permissions_override" where
  "RolePermissionsOverride_objects_create Role_objects rid =
     (if rid \<in> role_id ` set Role_objects
      then Inr \<lparr>ov_role_id = rid, ov_permissions = {}, ov_restrictions = {}\<rparr>
      else Inl IntegrityError)"

text \<open>
  The loop of \<open>CategoryForm.save\<close> over \<open>roles_data.items()\<close>:
  \<^verbatim>\<open>
  for role_id, perms_data in roles_data.items():
      perms_override = RolePermissionsOverride.objects.create(role_id=role_id)
      if perms_data['allow']:
          perms = Permission.objects.filter(codename__in=perms_data['allow'], content_type=content_type)
          perms_override.permissions.set(perms)
      if perms_data['deny']:
          restrictions = Permission.objects.filter(codename__in=perms_data['deny'], content_type=content_type)
          perms_override.restrictions.set(restrictions)
      overrides.append(perms_override)
  \<close>
\<close>

definition create_override ::
  "permission list \<Rightarrow> nat \<Rightarrow> role list \<Rightarrow> nat \<Rightarrow> perms_dict \<Rightarrow>
   py_error + role_permissions_override" where
  "create_override Permission_objects role_ct Role_objects rid perms_data =
     (case RolePermissionsOverride_objects_create Role_objects rid of
        Inl e \<Rightarrow> Inl e
      | Inr created \<Rightarrow>
          (case subscript perms_data ''allow'' of
             Inl e \<Rightarrow> Inl e
           | Inr allow \<Rightarrow>
               (let with_perms =
                      (if allow \<noteq> []
                       then created\<lparr>ov_permissions :=
                              Permission_objects_filter Permission_objects allow role_ct\<rparr>
                       else created)
                in case subscript perms_data ''deny'' of
                     Inl e \<Rightarrow> Inl e
                   | Inr deny \<Rightarrow>
                       Inr (if deny \<noteq> []
                            then with_perms\<lparr>ov_restrictions :=
                                   Permission_objects_filter Permission_objects deny role_ct\<rparr>
                            else with_perms))))"

fun create_overrides ::
  "permission list \<Rightarrow> nat \<Rightarrow> role list \<Rightarrow> (nat \<times> perms_dict) list \<Rightarrow>
   py_error + role_permissions_override list" where
  "create_overrides Permission_objects role_ct Role_objects [] = Inr []"
| "create_overrides Permission_objects role_ct Role_objects ((rid, perms_data) # rest) =
     (case create_override Permission_objects role_ct Role_objects rid perms_data of
        Inl e \<Rightarrow> Inl e
      | Inr perms_override \<Rightarrow>
          (case create_overrides Permission_objects role_ct Role_objects rest of
             Inl e \<Rightarrow> Inl e
           | Inr overrides \<Rightarrow> Inr (perms_override # overrides)))"

text \<open>
  The loop over the roles to add:
  \<^verbatim>\<open>
  for role in roles_to_override:
      overrides.append(RolePermissionsOverride.objects.create(role=role))
  \<close>
\<close>

fun create_for_roles ::
  "role list \<Rightarrow> role list \<Rightarrow> py_error + role_permissions_override list" where
  "create_for_roles Role_objects [] = Inr []"
| "create_for_roles Role_objects (r # rest) =
     (case RolePermissionsOverride_objects_create Role_objects (role_id r) of
        Inl e \<Rightarrow> Inl e
      | Inr created \<Rightarrow>
          (case create_for_roles Role_objects rest of
             Inl e \<Rightarrow> Inl e
           | Inr overrides \<Rightarrow> Inr (created # overrides)))"

text \<open>
  \<^verbatim>\<open>
  def save(self, commit=True):
      instance = super().save(commit=False)
      instance.save()
      roles_data = self.cleaned_data.get('_perms_override_', {})
      if roles_data:
          content_type = get_role_permissions_content_type()
          overrides = []
          instance.permissions_override.all().delete()
          for role_id, perms_data in roles_data.items():
              ...
          instance.permissions_override.add(*overrides)
      roles_to_override = self.cleaned_data.get('_add_override_roles_', {})
      if roles_to_override:
          overrides = []
          for role in roles_to_override:
              overrides.append(RolePermissionsOverride.objects.create(role=role))
          instance.permissions_override.add(*overrides)
      roles_to_cancel_override = self.cleaned_data.get('_remove_override_roles_', {})
      if roles_to_cancel_override:
          instance.permissions_override.all().filter(role__in=roles_to_cancel_override).delete()
      if commit:
          instance.save()
      return instance
  \<close>
  The three steps follow the source's order: replace, add, remove. \<open>Role_objects\<close> is the
  role table.
\<close>

definition replace_step ::
  "permission list \<Rightarrow> nat \<Rightarrow> role list \<Rightarrow> (nat \<times> perms_dict) list \<Rightarrow> category \<Rightarrow>
   py_error + category" where
  "replace_step Permission_objects role_ct Role_objects submitted instance =
     (if submitted \<noteq> [] then
        (case create_overrides Permission_objects role_ct Role_objects submitted of
           Inl e \<Rightarrow> Inl e
         | Inr overrides \<Rightarrow> Inr (instance\<lparr>permissions_override := [] @ overrides\<rparr>))
      else Inr instance)"

definition add_step :: "role list \<Rightarrow> role list \<Rightarrow> category \<Rightarrow> py_error + category" where
  "add_step Role_objects to_override instance =
     (if to_override \<noteq> [] then
        (case create_for_roles Role_objects to_override of
           Inl e \<Rightarrow> Inl e
         | Inr overrides \<Rightarrow>
             Inr (instance\<lparr>permissions_override := permissions_override instance @ overrides\<rparr>))
      else Inr instance)"

definition remove_step :: "role list \<Rightarrow> category \<Rightarrow> category" where
  "remove_step to_cancel instance =
     (if to_cancel \<noteq> [] then
        instance\<lparr>permissions_override :=
          filter (\<lambda>ov. ov_role_id ov \<notin> role_id ` set to_cancel)
            (permissions_override instance)\<rparr>
      else instance)"

text \<open>The three reads of the cleaned data, under the names of the source's locals.\<close>

definition roles_data :: "category_cleaned_data \<Rightarrow> (nat \<times> perms_dict) list" where
  "roles_data cd = get_default (cd_perms_override cd)"

definition roles_to_override :: "category_cleaned_data \<Rightarrow> role list" where
  "roles_to_override cd = get_default (cd_add_override_roles cd)"

definition roles_to_cancel_override :: "category_cleaned_data \<Rightarrow> role list" where
  "roles_to_cancel_override cd = get_default (cd_remove_override_roles cd)"

definition CategoryForm_save ::
  "permission list \<Rightarrow> nat \<Rightarrow> role list \<Rightarrow> category \<Rightarrow> category_cleaned_data \<Rightarrow>
   py_error + category" where
  "CategoryForm_save Permission_objects role_ct Role_objects instance0 cd =
     (case replace_step Permission_objects role_ct Role_objects (roles_data cd)
             (construct_category instance0 cd) of
        Inl e \<Rightarrow> Inl e
      | Inr replaced \<Rightarrow>
          (case add_step Role_objects (roles_to_override cd) replaced of
             Inl e \<Rightarrow> Inl e
           | Inr added \<Rightarrow> Inr (remove_step (roles_to_cancel_override cd) added)))"

text \<open>
  The cleaned data a save completes on: every submitted entry names a row of the role
  table and holds both lists, and the roles to add are rows of the role table.
\<close>

definition valid_submission :: "role list \<Rightarrow> category_cleaned_data \<Rightarrow> bool" where
  "valid_submission Role_objects cd =
     (list_all (\<lambda>e. fst e \<in> role_id ` set Role_objects \<and> has_allow_deny (snd e)) (roles_data cd)
      \<and> list_all (\<lambda>r. role_id r \<in> role_id ` set Role_objects) (roles_to_override cd))"

text \<open>The roles that have an override in a category.\<close>

definition overridden_roles :: "category \<Rightarrow> nat list" where
  "overridden_roles c = map ov_role_id (permissions_override c)"

section \<open>Resolution engine\<close>

text \<open>
  Modelled from the spec: the resolution engine (\<open>has_perm\<close> of the user model and
  web/permissions.py) is not part of these sources; only its call sites are. The
  definitions of this section follow section 4.1 of the specification.
\<close>

record principal =
  assigned_roles :: "nat set"
  is_authenticated :: bool

text \<open>
  Modelled from the spec: step 1, the effective role set is the explicitly assigned roles,
  \<open>everyone\<close>, and \<open>registered\<close> for an authenticated principal.
\<close>

definition effective_role_set :: "role list \<Rightarrow> principal \<Rightarrow> role list" where
  "effective_role_set Role_objects p =
     filter (\<lambda>r. role_id r \<in> assigned_roles p \<or> slug r = ''everyone'' \<or>
                 (is_authenticated p \<and> slug r = ''registered'')) Role_objects"

text \<open>
  Modelled from the spec: step 2, the override of a role in the scope category, when the
  scope is given and such an override exists.
\<close>

definition scoped_override :: "category option \<Rightarrow> role \<Rightarrow> role_permissions_override option" where
  "scoped_override scope r =
     (case scope of
        None \<Rightarrow> None
      | Some c \<Rightarrow> find (\<lambda>ov. ov_role_id ov = role_id r) (permissions_override c))"

text \<open>
  Modelled from the spec: step 2, the effective allowed and denied sets of a role: the
  override's sets when there is one, the role's global sets otherwise.
\<close>

definition effective_allowed :: "category option \<Rightarrow> role \<Rightarrow> string set" where
  "effective_allowed scope r =
     (case scoped_override scope r of
        Some ov \<Rightarrow> codename ` ov_permissions ov
      | None \<Rightarrow> codename ` permissions r)"

definition effective_denied :: "category option \<Rightarrow> role \<Rightarrow> string set" where
  "effective_denied scope r =
     (case scoped_override scope r of
        Some ov \<Rightarrow> codename ` ov_restrictions ov
      | None \<Rightarrow> codename ` restrictions r)"

text \<open>
  Modelled from the spec: step 3, one pass over the effective roles that records whether
  the capability was denied and whether it was allowed; a denial wins, and nothing found
  is a refusal.
\<close>

fun combine :: "string \<Rightarrow> category option \<Rightarrow> role list \<Rightarrow> bool \<times> bool \<Rightarrow> bool \<times> bool" where
  "combine capability scope [] acc = acc"
| "combine capability scope (r # rs) (denied, allowed) =
     combine capability scope rs
       (denied \<or> capability \<in> effective_denied scope r,
        allowed \<or> capability \<in> effective_allowed scope r)"

definition HasPermission ::
  "role list \<Rightarrow> principal \<Rightarrow> string \<Rightarrow> category option \<Rightarrow> bool" where
  "HasPermission Role_objects p capability scope =
     (case combine capability scope (effective_role_set Role_objects p) (False, False) of
        (denied, allowed) \<Rightarrow> if denied then False else if allowed then True else False)"

section \<open>Example data\<close>

text \<open>The rows of the specification's end-to-end scenario, used to run the definitions.\<close>

definition perm_delete :: permission where
  "perm_delete = \<lparr>codename = ''delete_articles'', content_type = 7\<rparr>"

definition role_A :: role where
  "role_A = \<lparr>role_id = 1, slug = ''a'', name = ''A'', index = 1, is_staff = True,
             permissions = {perm_delete}, restrictions = {}\<rparr>"

definition role_B :: role where
  "role_B = \<lparr>role_id = 2, slug = ''b'', name = ''B'', index = 2, is_staff = True,
             permissions = {}, restrictions = {perm_delete}\<rparr>"

definition role_everyone :: role where
  "role_everyone = \<lparr>role_id = 3, slug = ''everyone'', name = ''Everyone'', index = 9,
                    is_staff = False, permissions = {}, restrictions = {}\<rparr>"

definition admin2 :: user where
  "admin2 = \<lparr>pk = Some 5, username = ''mod'', email = ''mod@example.org'', is_active = True,
             is_superuser = False, operation_index = 2\<rparr>"

definition admin0 :: user where
  "admin0 = \<lparr>pk = Some 4, username = ''chief'', email = ''chief@example.org'',
             is_active = True, is_superuser = False, operation_index = 0\<rparr>"

definition root_user :: user where
  "root_user = \<lparr>pk = Some 1, username = ''root'', email = ''root@example.org'',
                is_active = True, is_superuser = True, operation_index = 0\<rparr>"

definition perm_edit :: permission where
  "perm_edit = \<lparr>codename = ''edit_articles'', content_type = 7\<rparr>"

definition both_ways :: role_cleaned_data where
  "both_ways = \<lparr>cd_slug = Some ''b'', cd_name = Some ''B'', cd_is_staff = Some True,
      cd_perms = Some [(''allow'', [''edit_articles'']), (''deny'', [''edit_articles''])]\<rparr>"

definition rename_only :: role_cleaned_data where
  "rename_only = \<lparr>cd_slug = Some ''b'', cd_name = Some ''Moderators'', cd_is_staff = Some True,
      cd_perms = Some []\<rparr>"

definition allow_edit :: role_cleaned_data where
  "allow_edit = \<lparr>cd_slug = Some ''b'', cd_name = Some ''B'', cd_is_staff = Some True,
      cd_perms = Some [(''allow'', [''edit_articles'']), (''deny'', [''delete_articles''])]\<rparr>"



definition role_table :: "role list" where
  "role_table = [role_A, role_B, role_everyone]"

definition cat0 :: category where
  "cat0 = \<lparr>cat_name = ''blog'', is_indexed = True,
           permissions_override =
             [\<lparr>ov_role_id = 1, ov_permissions = {}, ov_restrictions = {perm_delete}\<rparr>]\<rparr>"

definition cat_plain :: category where
  "cat_plain = \<lparr>cat_name = ''news'', is_indexed = True, permissions_override = []\<rparr>"

definition empty_submission :: category_cleaned_data where
  "empty_submission = \<lparr>cd_cat_name = Some ''blog'', cd_is_indexed = Some True,
      cd_perms_override = Some [], cd_add_override_roles = Some [],
      cd_remove_override_roles = Some []\<rparr>"

definition submit_role_2 :: category_cleaned_data where
  "submit_role_2 = \<lparr>cd_cat_name = Some ''blog'', cd_is_indexed = Some True,
      cd_perms_override = Some [(2, [(''allow'', [''delete_articles'']), (''deny'', [])])],
      cd_add_override_roles = Some [], cd_remove_override_roles = Some []\<rparr>"

definition submit_and_add_role_1 :: category_cleaned_data where
  "submit_and_add_role_1 = \<lparr>cd_cat_name = Some ''news'', cd_is_indexed = Some True,
      cd_perms_override = Some [(1, [(''allow'', []), (''deny'', [])])],
      cd_add_override_roles = Some [role_A], cd_remove_override_roles = Some []\<rparr>"

definition submit_1_add_2 :: category_cleaned_data where
  "submit_1_add_2 = \<lparr>cd_cat_name = Some ''blog'', cd_is_indexed = Some True,
      cd_perms_override = Some [(1, [(''allow'', [''delete_articles'']), (''deny'', [])])],
      cd_add_override_roles = Some [role_B], cd_remove_override_roles = Some []\<rparr>"

section \<open>Resolution engine: deny overrides allow\<close>

lemma combine_result:
  "combine capability scope rs (d, a) =
     (d \<or> (\<exists>r\<in>set rs. capability \<in> effective_denied scope r),
      a \<or> (\<exists>r\<in>set rs. capability \<in> effective_allowed scope r))"
  by (induction rs arbitrary: d a) auto

text \<open>
  C1. For every principal, capability and optional scope category, \<open>HasPermission\<close> is
  false if the capability is in the effective denied set of any role of the principal's
  effective role set, otherwise true if it is in the effective allowed set of any such
  role, otherwise false.
\<close>

theorem C1_deny_overrides_allow:
  "HasPermission Role_objects p capability scope =
     (if \<exists>r\<in>set (effective_role_set Role_objects p). capability \<in> effective_denied scope r
      then False
      else if \<exists>r\<in>set (effective_role_set Role_objects p). capability \<in> effective_allowed scope r
      then True
      else False)"
  by (simp add: HasPermission_def combine_result)

text \<open>
  The scenario of the specification: with roles A (allows) and B (denies) both assigned
  the capability is refused; with A alone it is granted.
\<close>

theorem C1_deny_overrides_allow_witness:
  "\<not> HasPermission [role_A, role_B] \<lparr>assigned_roles = {1, 2}, is_authenticated = True\<rparr>
       ''delete_articles'' None
   \<and> HasPermission [role_A, role_B] \<lparr>assigned_roles = {1}, is_authenticated = True\<rparr>
       ''delete_articles'' None"
  using
    C1_deny_overrides_allow [of "[role_A, role_B]"
      "\<lparr>assigned_roles = {1, 2}, is_authenticated = True\<rparr>" "''delete_articles''" None]
    C1_deny_overrides_allow [of "[role_A, role_B]"
      "\<lparr>assigned_roles = {1}, is_authenticated = True\<rparr>" "''delete_articles''" None]
  by (simp add: effective_role_set_def effective_denied_def effective_allowed_def
        scoped_override_def role_A_def role_B_def perm_delete_def)

section \<open>Authority guard: roles\<close>

text \<open>
  The claim C2 as stated (the role check is true exactly when the actor is a superuser or
  the actor's operation index is strictly less than the role's rank) fails: a
  non-superuser whose operation index 2 equals the rank 2 of role B passes the check.
\<close>

theorem C2_equal_rank_counterexample:
  "\<not> (RoleAdmin_has_change_permission (\<lambda>u obj. True) admin2 (Some role_B) =
        (is_superuser admin2 \<or> operation_index admin2 < index role_B))"
  by (simp add: RoleAdmin_has_change_permission_def admin2_def role_B_def)

text \<open>
  C2, amended. For every actor and every target role, the role admin's change check is
  true if and only if the actor is a superuser or the actor's operation index is less
  than or equal to the role's rank, and the framework's model-level check grants: only a
  role that strictly outranks the actor is refused.
\<close>

theorem C2_role_can_manage_iff:
  "RoleAdmin_has_change_permission super_check actor (Some r) =
     ((is_superuser actor \<or> operation_index actor \<le> index r) \<and> super_check actor (Some r))"
  by (auto simp: RoleAdmin_has_change_permission_def)

section \<open>Category form: override replacement\<close>

lemma subscript_has_allow_deny:
  "has_allow_deny pd \<Longrightarrow>
     \<exists>allow deny. subscript pd ''allow'' = Inr allow \<and> subscript pd ''deny'' = Inr deny"
  by (auto simp: has_allow_deny_def subscript_def)

lemma create_override_role:
  "create_override P ct R rid pd = Inr ov \<Longrightarrow> ov_role_id ov = rid"
  by (auto simp: create_override_def RolePermissionsOverride_objects_create_def Let_def
      split: sum.splits if_splits)

lemma create_override_total:
  "rid \<in> role_id ` set R \<Longrightarrow> has_allow_deny pd \<Longrightarrow> \<exists>ov. create_override P ct R rid pd = Inr ov"
  by (auto simp: create_override_def RolePermissionsOverride_objects_create_def Let_def
      dest!: subscript_has_allow_deny)

lemma create_overrides_total:
  "list_all (\<lambda>e. fst e \<in> role_id ` set R \<and> has_allow_deny (snd e)) rd \<Longrightarrow>
     \<exists>ovs. create_overrides P ct R rd = Inr ovs"
proof (induction rd)
  case Nil
  then show ?case by simp
next
  case (Cons e rest)
  obtain rid pd where e: "e = (rid, pd)" by (cases e)
  from Cons.prems e obtain ov where 1: "create_override P ct R rid pd = Inr ov"
    using create_override_total [of rid R pd P ct] by auto
  from Cons obtain ovs where 2: "create_overrides P ct R rest = Inr ovs" by auto
  from 1 2 e show ?case by simp
qed

lemma create_overrides_roles:
  "create_overrides P ct R rd = Inr ovs \<Longrightarrow> map ov_role_id ovs = map fst rd"
proof (induction rd arbitrary: ovs)
  case Nil
  then show ?case by simp
next
  case (Cons e rest)
  obtain rid pd where e: "e = (rid, pd)" by (cases e)
  from Cons.prems e obtain ov ovs' where
    1: "create_override P ct R rid pd = Inr ov" and
    2: "create_overrides P ct R rest = Inr ovs'" and
    3: "ovs = ov # ovs'"
    by (auto split: sum.splits)
  from Cons.IH [OF 2] create_override_role [OF 1] 3 e show ?case by simp
qed

lemma create_overrides_member:
  "create_overrides P ct R rd = Inr ovs \<Longrightarrow> (rid, pd) \<in> set rd \<Longrightarrow>
     \<exists>ov. create_override P ct R rid pd = Inr ov \<and> ov \<in> set ovs"
proof (induction rd arbitrary: ovs)
  case Nil
  then show ?case by simp
next
  case (Cons e rest)
  obtain rid' pd' where e: "e = (rid', pd')" by (cases e)
  from Cons.prems(1) e obtain ov' ovs' where
    1: "create_override P ct R rid' pd' = Inr ov'" and
    2: "create_overrides P ct R rest = Inr ovs'" and
    3: "ovs = ov' # ovs'"
    by (auto split: sum.splits)
  show ?case
  proof (cases "(rid, pd) = e")
    case True
    with e 1 3 show ?thesis by simp
  next
    case False
    with Cons.prems(2) have "(rid, pd) \<in> set rest" by simp
    from Cons.IH [OF 2 this] 3 show ?thesis by auto
  qed
qed

lemma create_for_roles_total:
  "list_all (\<lambda>r. role_id r \<in> role_id ` set R) rs \<Longrightarrow> \<exists>ovs. create_for_roles R rs = Inr ovs"
  by (induction rs) (auto simp: RolePermissionsOverride_objects_create_def)

lemma create_for_roles_roles:
  "create_for_roles R rs = Inr ovs \<Longrightarrow> map ov_role_id ovs = map role_id rs"
  by (induction rs arbitrary: ovs)
     (auto simp: RolePermissionsOverride_objects_create_def split: sum.splits if_splits)

lemma remove_step_roles:
  "overridden_roles (remove_step rs c) = filter (\<lambda>rid. rid \<notin> role_id ` set rs) (overridden_roles c)"
  by (simp add: remove_step_def overridden_roles_def filter_map o_def)

lemma add_step_roles:
  "add_step R rs c = Inr c' \<Longrightarrow> overridden_roles c' = overridden_roles c @ map role_id rs"
  by (auto simp: add_step_def overridden_roles_def split: if_splits sum.splits
      dest: create_for_roles_roles)

lemma replace_step_roles:
  "replace_step P ct R rd c = Inr c' \<Longrightarrow>
     overridden_roles c' = (if rd \<noteq> [] then map fst rd else overridden_roles c)"
  by (auto simp: replace_step_def overridden_roles_def split: sum.splits if_splits
      dest: create_overrides_roles)

lemma construct_category_roles:
  "overridden_roles (construct_category c cd) = overridden_roles c"
  by (simp add: construct_category_def overridden_roles_def)

lemma overridden_roles_save:
  assumes "CategoryForm_save P ct R c cd = Inr c'"
  shows "overridden_roles c' =
     filter (\<lambda>rid. rid \<notin> role_id ` set (roles_to_cancel_override cd))
       ((if roles_data cd \<noteq> [] then map fst (roles_data cd) else overridden_roles c)
        @ map role_id (roles_to_override cd))"
proof -
  from assms obtain replaced added where
    r: "replace_step P ct R (roles_data cd) (construct_category c cd) = Inr replaced" and
    a: "add_step R (roles_to_override cd) replaced = Inr added" and
    c': "c' = remove_step (roles_to_cancel_override cd) added"
    by (auto simp: CategoryForm_save_def split: sum.splits)
  show ?thesis
    unfolding c' remove_step_roles add_step_roles [OF a] replace_step_roles [OF r]
      construct_category_roles ..
qed

lemma CategoryForm_save_result:
  assumes "valid_submission R cd"
  shows "\<exists>ovs adds. create_overrides P ct R (roles_data cd) = Inr ovs
     \<and> create_for_roles R (roles_to_override cd) = Inr adds
     \<and> CategoryForm_save P ct R c cd =
         Inr ((construct_category c cd)\<lparr>permissions_override :=
           filter (\<lambda>ov. ov_role_id ov \<notin> role_id ` set (roles_to_cancel_override cd))
             ((if roles_data cd \<noteq> [] then ovs else permissions_override c) @ adds)\<rparr>)"
proof -
  from assms obtain ovs where
    ovs: "create_overrides P ct R (roles_data cd) = Inr ovs"
    using create_overrides_total [of R "roles_data cd" P ct]
    by (auto simp: valid_submission_def)
  from assms obtain adds where
    adds: "create_for_roles R (roles_to_override cd) = Inr adds"
    using create_for_roles_total [of R "roles_to_override cd"]
    by (auto simp: valid_submission_def)
  have e: "roles_to_override cd = [] \<Longrightarrow> adds = []"
    using adds by simp
  have "CategoryForm_save P ct R c cd =
         Inr ((construct_category c cd)\<lparr>permissions_override :=
           filter (\<lambda>ov. ov_role_id ov \<notin> role_id ` set (roles_to_cancel_override cd))
             ((if roles_data cd \<noteq> [] then ovs else permissions_override c) @ adds)\<rparr>)"
    using ovs adds e
    by (auto simp: CategoryForm_save_def replace_step_def add_step_def remove_step_def
        construct_category_def)
  with ovs adds show ?thesis by blast
qed

lemma no_override_falls_back:
  assumes "role_id r \<notin> set (overridden_roles c)"
  shows "scoped_override (Some c) r = None
     \<and> effective_allowed (Some c) r = codename ` permissions r
     \<and> effective_denied (Some c) r = codename ` restrictions r"
proof -
  from assms have "\<forall>ov\<in>set (permissions_override c). ov_role_id ov \<noteq> role_id r"
    by (auto simp: overridden_roles_def image_iff)
  then have "scoped_override (Some c) r = None"
    by (simp add: scoped_override_def find_None_iff)
  then show ?thesis
    by (simp add: effective_allowed_def effective_denied_def)
qed

lemma distinct_kept_append:
  "distinct (filter Q (xs @ map f rs)) \<longleftrightarrow>
     distinct (filter Q (map f rs)) \<and> (\<forall>r\<in>set rs. Q (f r) \<longrightarrow> f r \<notin> set xs)
     \<and> distinct (filter Q xs)"
proof -
  have "set (filter Q xs) \<inter> set (filter Q (map f rs)) = {}
          \<longleftrightarrow> (\<forall>r\<in>set rs. Q (f r) \<longrightarrow> f r \<notin> set xs)"
    by (auto simp: image_iff)
  then show ?thesis
    by (simp only: filter_append distinct_append) blast
qed

lemma filter_eq_single:
  "distinct (map f xs) \<Longrightarrow> x \<in> set xs \<Longrightarrow> filter (\<lambda>y. f y = f x) xs = [x]"
proof (induction xs)
  case Nil
  then show ?case by simp
next
  case (Cons a xs)
  show ?case
  proof (cases "a = x")
    case True
    from Cons.prems(1) True have "\<forall>y\<in>set xs. f y \<noteq> f x" by (auto simp: image_iff)
    then have "filter (\<lambda>y. f y = f x) xs = []" by (simp add: filter_empty_conv)
    with True show ?thesis by simp
  next
    case False
    with Cons.prems have xin: "x \<in> set xs" by simp
    with Cons.prems(1) have "f a \<noteq> f x" by (auto simp: image_iff)
    with Cons.IH Cons.prems(1) xin show ?thesis by simp
  qed
qed


text \<open>
  The claim C3 as stated (a save with an empty submission map removes all prior overrides
  of the category, so every role falls back to its global sets) fails: the replace step is
  guarded by \<open>if roles_data:\<close>, the empty map leaves the override of role A in place,
  and role A is still denied there what its global sets do not deny.
\<close>

theorem C3_empty_submission_counterexample:
  "CategoryForm_save [perm_delete] 7 role_table cat0 empty_submission = Inr cat0
   \<and> roles_data empty_submission = []
   \<and> overridden_roles cat0 = [1]
   \<and> effective_denied (Some cat0) role_A = {''delete_articles''}
   \<and> codename ` restrictions role_A = {}"
  by (simp add: CategoryForm_save_def replace_step_def add_step_def remove_step_def
      roles_data_def roles_to_override_def roles_to_cancel_override_def
      get_default_def empty_submission_def cat0_def construct_category_def overridden_roles_def
      effective_denied_def scoped_override_def role_A_def perm_delete_def)

text \<open>
  C3, as the code has it. A save on valid cleaned data (every submitted entry names a row
  of the role table and holds both an \<open>allow\<close> and a \<open>deny\<close> list; the roles to
  add are rows of the role table) succeeds. When its submission map is not empty it
  removes all prior overrides of the category: the overrides afterwards are exactly the
  ones created from the submitted entries followed by the ones created for the roles to
  add, less those of the roles to remove, whatever the category held before; every
  role that is not submitted or added, or that is to be removed, has no override afterwards
  and its effective allowed and denied sets in that category are its global sets. When the
  submission map is empty and there is no role to add or remove, the overrides of the
  category are left as they were.
\<close>

theorem C3_replace_overrides:
  assumes "valid_submission R cd"
  shows "\<exists>c'. CategoryForm_save P ct R c cd = Inr c'
     \<and> (roles_data cd \<noteq> [] \<longrightarrow>
          (\<exists>ovs adds. create_overrides P ct R (roles_data cd) = Inr ovs
             \<and> create_for_roles R (roles_to_override cd) = Inr adds
             \<and> permissions_override c' =
                 filter (\<lambda>ov. ov_role_id ov \<notin> role_id ` set (roles_to_cancel_override cd))
                   (ovs @ adds))
          \<and> (\<forall>r. role_id r \<notin> (fst ` set (roles_data cd) \<union> role_id ` set (roles_to_override cd))
                              - role_id ` set (roles_to_cancel_override cd) \<longrightarrow>
                role_id r \<notin> set (overridden_roles c')
                \<and> effective_allowed (Some c') r = codename ` permissions r
                \<and> effective_denied (Some c') r = codename ` restrictions r))
     \<and> (roles_data cd = [] \<and> roles_to_override cd = [] \<and> roles_to_cancel_override cd = [] \<longrightarrow>
           permissions_override c' = permissions_override c)"
proof -
  from CategoryForm_save_result [OF assms, of P ct c] obtain ovs adds c' where
    ovs: "create_overrides P ct R (roles_data cd) = Inr ovs" and
    adds: "create_for_roles R (roles_to_override cd) = Inr adds" and
    c': "c' = (construct_category c cd)\<lparr>permissions_override :=
           filter (\<lambda>ov. ov_role_id ov \<notin> role_id ` set (roles_to_cancel_override cd))
             ((if roles_data cd \<noteq> [] then ovs else permissions_override c) @ adds)\<rparr>" and
    s: "CategoryForm_save P ct R c cd = Inr c'"
    by blast
  have a: "permissions_override c' =
             filter (\<lambda>ov. ov_role_id ov \<notin> role_id ` set (roles_to_cancel_override cd))
               (ovs @ adds)"
    if "roles_data cd \<noteq> []"
    using that by (simp add: c')
  have n: "role_id r \<notin> set (overridden_roles c')"
    if "roles_data cd \<noteq> []"
      and "role_id r \<notin> (fst ` set (roles_data cd) \<union> role_id ` set (roles_to_override cd))
                              - role_id ` set (roles_to_cancel_override cd)" for r :: role
    using that overridden_roles_save [OF s] by auto
  have b: "permissions_override c' = permissions_override c"
    if "roles_data cd = []" and "roles_to_override cd = []"
      and "roles_to_cancel_override cd = []"
    using that adds by (simp add: c')
  from s ovs adds a n no_override_falls_back [of _ c'] b show ?thesis by blast
qed

theorem C3_replace_overrides_witness:
  "\<exists>c'. CategoryForm_save [perm_delete] 7 role_table cat0 submit_role_2 = Inr c'
     \<and> roles_data submit_role_2 \<noteq> []
     \<and> overridden_roles cat0 = [1]
     \<and> role_id role_A \<notin> set (overridden_roles c')
     \<and> effective_allowed (Some c') role_A = {''delete_articles''}
     \<and> effective_denied (Some c') role_A = {}"
proof -
  have h: "valid_submission role_table submit_role_2"
    by (simp add: valid_submission_def roles_data_def roles_to_override_def get_default_def
        submit_role_2_def has_allow_deny_def role_table_def role_A_def role_B_def
        role_everyone_def)
  have e: "overridden_roles cat0 = [1]"
    by (simp add: overridden_roles_def cat0_def)
  have n: "roles_data submit_role_2 \<noteq> []
       \<and> role_id role_A \<notin> (fst ` set (roles_data submit_role_2)
                              \<union> role_id ` set (roles_to_override submit_role_2))
                            - role_id ` set (roles_to_cancel_override submit_role_2)"
    by (simp add: roles_data_def roles_to_override_def get_default_def submit_role_2_def
        role_A_def)
  have g: "codename ` permissions role_A = {''delete_articles''}
       \<and> codename ` restrictions role_A = {}"
    by (simp add: role_A_def perm_delete_def)
  from C3_replace_overrides [OF h, of "[perm_delete]" 7 cat0] n e g
  show ?thesis by (metis (no_types, lifting))
qed

section \<open>Authority guard: users\<close>

text \<open>
  The claim C4 as stated (the user check is true exactly when the actor is a superuser or
  the actor's operation index is strictly less than the target's) fails where the
  framework's model-level check refuses: an actor of operation index 0 is then refused a
  target of operation index 2.
\<close>

theorem C4_framework_refusal_counterexample:
  "\<not> (AdvancedUserAdmin_has_change_permission (\<lambda>u obj. False) admin0 (Some admin2) =
        (is_superuser admin0 \<or> operation_index admin0 < operation_index admin2))"
  by (simp add: AdvancedUserAdmin_has_change_permission_def admin0_def admin2_def)

text \<open>
  C4, as the code has it. For every actor and every target user, the user admin's change
  check is true if and only if the actor is a superuser or the actor's operation index is
  strictly less than the target's, and the framework's model-level check grants; a
  non-superuser actor whose operation index equals the target's cannot manage the target.
\<close>

theorem C4_user_can_manage_iff:
  "AdvancedUserAdmin_has_change_permission super_check actor (Some target) =
     ((is_superuser actor \<or> operation_index actor < operation_index target)
      \<and> super_check actor (Some target))
   \<and> (\<not> is_superuser actor \<and> operation_index actor = operation_index target \<longrightarrow>
        \<not> AdvancedUserAdmin_has_change_permission super_check actor (Some target))"
  by (auto simp: AdvancedUserAdmin_has_change_permission_def)

theorem C4_user_can_manage_iff_witness:
  "AdvancedUserAdmin_has_change_permission (\<lambda>u obj. True) admin0 (Some admin2)
   \<and> \<not> AdvancedUserAdmin_has_change_permission (\<lambda>u obj. False) admin0 (Some admin2)
   \<and> \<not> AdvancedUserAdmin_has_change_permission (\<lambda>u obj. True) admin2 (Some admin2)
   \<and> \<not> is_superuser admin2 \<and> operation_index admin2 = operation_index admin2"
  using C4_user_can_manage_iff [of "\<lambda>u obj. True" admin0 admin2]
    C4_user_can_manage_iff [of "\<lambda>u obj. False" admin0 admin2]
    C4_user_can_manage_iff [of "\<lambda>u obj. True" admin2 admin2]
  by (simp add: admin2_def admin0_def)

section \<open>User edits: field-level reverts\<close>

lemma save_model_keeps_roles:
  "AdvancedUserAdmin_save_model has_perm db actor obj change = Inr db' \<Longrightarrow>
     user_roles db' = user_roles db"
  by (auto simp: AdvancedUserAdmin_save_model_def Model_save_def roles_set_def roles_all_def
      Let_def split: option.splits if_splits sum.splits)



section \<open>Protected roles\<close>

text \<open>
  C6. For every actor, a superuser included, and whatever the framework's check says,
  deleting a role whose slug is \<open>everyone\<close> or \<open>registered\<close> is refused, and \<open>slug\<close>
  is among the read-only fields of every edit of such a role.
\<close>

theorem C6_protected_roles:
  "slug r \<in> {''everyone'', ''registered''} \<Longrightarrow>
     \<not> RoleAdmin_has_delete_permission super_check actor (Some r)
     \<and> ''slug'' \<in> set (RoleAdmin_get_readonly_fields readonly_fields actor (Some r))"
  by (auto simp: RoleAdmin_has_delete_permission_def RoleAdmin_get_readonly_fields_def)

theorem C6_protected_roles_witness:
  "slug role_everyone \<in> {''everyone'', ''registered''}
   \<and> is_superuser root_user
   \<and> \<not> RoleAdmin_has_delete_permission (\<lambda>u obj. True) root_user (Some role_everyone)
   \<and> ''slug'' \<in> set (RoleAdmin_get_readonly_fields [] root_user (Some role_everyone))"
proof -
  have h: "slug role_everyone \<in> {''everyone'', ''registered''}"
    by (simp add: role_everyone_def)
  show ?thesis
    using h C6_protected_roles [OF h, of "\<lambda>u obj. True" root_user "[]"]
    by (simp add: root_user_def)
qed

section \<open>Role form: allowed and denied sets\<close>

lemma codename_filter:
  "codename ` Permission_objects_filter P names ct \<subseteq> set names"
  by (auto simp: Permission_objects_filter_def)

text \<open>
  The claim C7 as stated (after a role edit with any submitted allow/deny data the
  allowed and denied sets are disjoint) fails: a submission that lists
  \<open>edit_articles\<close> under both \<open>allow\<close> and \<open>deny\<close> is saved into both sets.
\<close>

theorem C7_overlap_counterexample:
  "\<exists>r'. RoleForm_save [perm_delete, perm_edit] 7 role_B both_ways = Inr r'
     \<and> perm_edit \<in> permissions r' \<and> perm_edit \<in> restrictions r'
     \<and> codename ` permissions r' \<inter> codename ` restrictions r' \<noteq> {}"
  by (simp add: RoleForm_save_def both_ways_def get_default_def subscript_def
      Permission_objects_filter_def perm_edit_def perm_delete_def construct_role_def)

text \<open>
  C7, as the code has it. After a role edit whose submitted allow and deny lists share no
  codename, the save succeeds and the role's allowed set and denied set are disjoint: no
  capability codename is in both.
\<close>

theorem C7_disjoint_after_save:
  assumes a: "subscript (get_default (cd_perms cd)) ''allow'' = Inr allow"
    and d: "subscript (get_default (cd_perms cd)) ''deny'' = Inr deny"
    and disj: "set allow \<inter> set deny = {}"
  shows "\<exists>r'. RoleForm_save Permission_objects role_ct r cd = Inr r'
     \<and> codename ` permissions r' \<inter> codename ` restrictions r' = {}"
proof -
  from a have ne: "get_default (cd_perms cd) \<noteq> []"
    by (auto simp: subscript_def)
  from ne a d obtain r' where s: "RoleForm_save Permission_objects role_ct r cd = Inr r'"
    by (simp add: RoleForm_save_def Let_def)
  have p: "codename ` permissions r' \<subseteq> set allow"
    using ne s a d codename_filter [of Permission_objects allow role_ct]
    by (auto simp: RoleForm_save_def Let_def split: if_splits)
  have q: "codename ` restrictions r' \<subseteq> set deny"
    using ne s a d codename_filter [of Permission_objects deny role_ct]
    by (auto simp: RoleForm_save_def Let_def split: if_splits)
  from s p q disj show ?thesis by blast
qed

theorem C7_disjoint_after_save_witness:
  "\<exists>r'. RoleForm_save [perm_delete, perm_edit] 7 role_B allow_edit = Inr r'
     \<and> permissions r' = {perm_edit} \<and> restrictions r' = {perm_delete}
     \<and> codename ` permissions r' \<inter> codename ` restrictions r' = {}"
proof -
  have a: "subscript (get_default (cd_perms allow_edit)) ''allow'' = Inr [''edit_articles'']"
    by (simp add: allow_edit_def get_default_def subscript_def)
  have d: "subscript (get_default (cd_perms allow_edit)) ''deny'' = Inr [''delete_articles'']"
    by (simp add: allow_edit_def get_default_def subscript_def)
  have disj: "set [''edit_articles''] \<inter> set [''delete_articles''] = {}" by simp
  have e: "RoleForm_save [perm_delete, perm_edit] 7 role_B allow_edit =
             Inr (role_B\<lparr>permissions := {perm_edit}, restrictions := {perm_delete}\<rparr>)"
    by (simp add: RoleForm_save_def allow_edit_def get_default_def subscript_def
        Permission_objects_filter_def perm_edit_def perm_delete_def construct_role_def
        role_B_def)
  show ?thesis
    using C7_disjoint_after_save [OF a d disj, of "[perm_delete, perm_edit]" 7 role_B] e
    by simp
qed

section \<open>Category form: one override per role\<close>

text \<open>
  The claim C8 as stated (after any category-form save at most one override exists per
  role and category) fails: the add step creates an override without looking for an
  existing one, so a role that is both in the submission map and among the roles to add
  ends with two overrides.
\<close>

theorem C8_duplicate_counterexample:
  "\<exists>c'. CategoryForm_save [perm_delete] 7 role_table cat_plain submit_and_add_role_1 = Inr c'
     \<and> overridden_roles cat_plain = []
     \<and> overridden_roles c' = [1, 1]
     \<and> \<not> distinct (overridden_roles c')"
  by (simp add: CategoryForm_save_def replace_step_def add_step_def remove_step_def
      roles_data_def roles_to_override_def roles_to_cancel_override_def
      get_default_def submit_and_add_role_1_def cat_plain_def construct_category_def
      overridden_roles_def create_override_def subscript_def
      RolePermissionsOverride_objects_create_def role_table_def role_A_def role_B_def
      role_everyone_def)

text \<open>
  C8, as the code has it. A save on valid cleaned data (every submitted entry names a row
  of the role table and holds both lists; the roles to add are rows of the role table; the
  keys of the submission map are distinct, as those of a dictionary are) succeeds.
  Afterwards at most one override exists per role exactly when, counting only roles that
  are not to be removed: the roles to add are distinct; none of them is a key of the
  submission map or, when the map is empty, already overridden in the category; and, when
  the map is empty, the category held at most one override per role before. A role with
  submitted override data that is neither added nor removed has exactly one override
  afterwards, the one created from that data, whether or not it had one before. A role to
  remove has none.
\<close>

theorem C8_one_override_per_role:
  assumes ok: "valid_submission R cd"
    and keys: "distinct (map fst (roles_data cd))"
  shows "\<exists>c'. CategoryForm_save P ct R c cd = Inr c'
     \<and> (distinct (overridden_roles c') \<longleftrightarrow>
          distinct (filter (\<lambda>rid. rid \<notin> role_id ` set (roles_to_cancel_override cd))
                      (map role_id (roles_to_override cd)))
          \<and> (\<forall>r\<in>set (roles_to_override cd).
                role_id r \<notin> role_id ` set (roles_to_cancel_override cd) \<longrightarrow>
                role_id r \<notin> (if roles_data cd \<noteq> [] then fst ` set (roles_data cd)
                               else set (overridden_roles c)))
          \<and> (roles_data cd = [] \<longrightarrow>
                distinct (filter (\<lambda>rid. rid \<notin> role_id ` set (roles_to_cancel_override cd))
                            (overridden_roles c))))
     \<and> (\<forall>rid pd. (rid, pd) \<in> set (roles_data cd)
            \<and> rid \<notin> role_id ` set (roles_to_override cd)
            \<and> rid \<notin> role_id ` set (roles_to_cancel_override cd) \<longrightarrow>
          (\<exists>ov. create_override P ct R rid pd = Inr ov
             \<and> filter (\<lambda>x. ov_role_id x = rid) (permissions_override c') = [ov]))
     \<and> (\<forall>rid. rid \<in> role_id ` set (roles_to_cancel_override cd) \<longrightarrow>
          rid \<notin> set (overridden_roles c'))"
proof -
  let ?keep = "\<lambda>rid. rid \<notin> role_id ` set (roles_to_cancel_override cd)"
  from CategoryForm_save_result [OF ok, of P ct c] obtain ovs adds c' where
    ovs: "create_overrides P ct R (roles_data cd) = Inr ovs" and
    adds: "create_for_roles R (roles_to_override cd) = Inr adds" and
    c': "c' = (construct_category c cd)\<lparr>permissions_override :=
           filter (\<lambda>ov. ?keep (ov_role_id ov))
             ((if roles_data cd \<noteq> [] then ovs else permissions_override c) @ adds)\<rparr>" and
    s: "CategoryForm_save P ct R c cd = Inr c'"
    by blast
  note roles = overridden_roles_save [OF s]
  have d: "distinct (overridden_roles c') \<longleftrightarrow>
          distinct (filter ?keep (map role_id (roles_to_override cd)))
          \<and> (\<forall>r\<in>set (roles_to_override cd). ?keep (role_id r) \<longrightarrow>
                role_id r \<notin> (if roles_data cd \<noteq> [] then fst ` set (roles_data cd)
                               else set (overridden_roles c)))
          \<and> (roles_data cd = [] \<longrightarrow> distinct (filter ?keep (overridden_roles c)))"
  proof (cases "roles_data cd = []")
    case True
    then show ?thesis
      unfolding roles distinct_kept_append by simp
  next
    case False
    from keys have "distinct (filter ?keep (map fst (roles_data cd)))"
      by (rule distinct_filter)
    with False show ?thesis
      unfolding roles distinct_kept_append by simp
  qed
  have single: "\<exists>ov. create_override P ct R rid pd = Inr ov
             \<and> filter (\<lambda>x. ov_role_id x = rid) (permissions_override c') = [ov]"
    if m: "(rid, pd) \<in> set (roles_data cd)"
      and na: "rid \<notin> role_id ` set (roles_to_override cd)"
      and keep: "?keep rid" for rid pd
  proof -
    from m have ne: "roles_data cd \<noteq> []" by auto
    from create_overrides_member [OF ovs m] obtain ov where
      ov: "create_override P ct R rid pd = Inr ov" and mem: "ov \<in> set ovs" by blast
    have rid: "ov_role_id ov = rid" by (rule create_override_role [OF ov])
    have dk: "distinct (map ov_role_id ovs)"
      using keys create_overrides_roles [OF ovs] by simp
    have 1: "filter (\<lambda>x. ov_role_id x = rid) ovs = [ov]"
      using filter_eq_single [OF dk mem] rid by simp
    have "rid \<notin> set (map ov_role_id adds)"
      using na create_for_roles_roles [OF adds] by simp
    then have 2: "filter (\<lambda>x. ov_role_id x = rid) adds = []"
      by (auto simp: filter_empty_conv)
    have 3: "filter (\<lambda>x. ov_role_id x = rid) (filter (\<lambda>ov. ?keep (ov_role_id ov)) xs)
               = filter (\<lambda>x. ov_role_id x = rid) xs"
      for xs :: "role_permissions_override list"
      using keep by (induction xs) auto
    from ne 1 2 3 have "filter (\<lambda>x. ov_role_id x = rid) (permissions_override c') = [ov]"
      by (simp add: c')
    with ov show ?thesis by blast
  qed
  have gone: "rid \<notin> set (overridden_roles c')"
    if "rid \<in> role_id ` set (roles_to_cancel_override cd)" for rid
    using that unfolding roles by simp
  from s d single gone show ?thesis by blast
qed

theorem C8_one_override_per_role_witness:
  "\<exists>c'. CategoryForm_save [perm_delete] 7 role_table cat0 submit_1_add_2 = Inr c'
     \<and> overridden_roles cat0 = [1]
     \<and> distinct (overridden_roles c')
     \<and> filter (\<lambda>x. ov_role_id x = 1) (permissions_override c') =
         [\<lparr>ov_role_id = 1, ov_permissions = {perm_delete}, ov_restrictions = {}\<rparr>]"
proof -
  have ok: "valid_submission role_table submit_1_add_2"
    by (simp add: valid_submission_def roles_data_def roles_to_override_def get_default_def
        submit_1_add_2_def has_allow_deny_def role_table_def role_A_def role_B_def
        role_everyone_def)
  have keys: "distinct (map fst (roles_data submit_1_add_2))"
    by (simp add: roles_data_def get_default_def submit_1_add_2_def)
  have e: "overridden_roles cat0 = [1]"
    by (simp add: overridden_roles_def cat0_def)
  have rhs: "distinct (filter (\<lambda>rid. rid \<notin> role_id ` set (roles_to_cancel_override submit_1_add_2))
                      (map role_id (roles_to_override submit_1_add_2)))
          \<and> (\<forall>r\<in>set (roles_to_override submit_1_add_2).
                role_id r \<notin> role_id ` set (roles_to_cancel_override submit_1_add_2) \<longrightarrow>
                role_id r \<notin> (if roles_data submit_1_add_2 \<noteq> []
                               then fst ` set (roles_data submit_1_add_2)
                               else set (overridden_roles cat0)))
          \<and> (roles_data submit_1_add_2 = [] \<longrightarrow>
                distinct (filter (\<lambda>rid. rid \<notin> role_id ` set (roles_to_cancel_override submit_1_add_2))
                            (overridden_roles cat0)))"
    by (simp add: roles_to_override_def roles_to_cancel_override_def roles_data_def
        get_default_def submit_1_add_2_def role_B_def)
  have m: "(1, [(''allow'', [''delete_articles'']), (''deny'', [])]) \<in> set (roles_data submit_1_add_2)
        \<and> 1 \<notin> role_id ` set (roles_to_override submit_1_add_2)
        \<and> 1 \<notin> role_id ` set (roles_to_cancel_override submit_1_add_2)"
    by (simp add: roles_data_def roles_to_override_def roles_to_cancel_override_def
        get_default_def submit_1_add_2_def role_B_def)
  have ov: "create_override [perm_delete] 7 role_table 1
              [(''allow'', [''delete_articles'']), (''deny'', [])]
              = Inr \<lparr>ov_role_id = 1, ov_permissions = {perm_delete}, ov_restrictions = {}\<rparr>"
    by (simp add: create_override_def subscript_def Permission_objects_filter_def perm_delete_def
        RolePermissionsOverride_objects_create_def role_table_def role_A_def)
  from C8_one_override_per_role [OF ok keys, of "[perm_delete]" 7 cat0]
  obtain c' where
    s: "CategoryForm_save [perm_delete] 7 role_table cat0 submit_1_add_2 = Inr c'" and
    d: "distinct (overridden_roles c')" and
    single: "\<forall>rid pd. (rid, pd) \<in> set (roles_data submit_1_add_2)
            \<and> rid \<notin> role_id ` set (roles_to_override submit_1_add_2)
            \<and> rid \<notin> role_id ` set (roles_to_cancel_override submit_1_add_2) \<longrightarrow>
          (\<exists>ov. create_override [perm_delete] 7 role_table rid pd = Inr ov
             \<and> filter (\<lambda>x. ov_role_id x = rid) (permissions_override c') = [ov])"
    using rhs by blast
  from single m ov have f: "filter (\<lambda>x. ov_role_id x = 1) (permissions_override c') =
         [\<lparr>ov_role_id = 1, ov_permissions = {perm_delete}, ov_restrictions = {}\<rparr>]"
    by (metis sum.inject(2))
  from s e d f show ?thesis by blast
qed

section \<open>Assignable roles\<close>

text \<open>
  C9. The role choices of the invite form and of the admin user-edit form (when it has a
  \<open>roles\<close> field) never hold a role whose slug is \<open>everyone\<close> or \<open>registered\<close>,
  whatever the role table holds; every other role of the table is a choice.
\<close>

theorem C9_assignable_roles:
  "(\<forall>r \<in> set (InviteForm_roles Role_objects).
       slug r \<noteq> ''everyone'' \<and> slug r \<noteq> ''registered'')
   \<and> (\<forall>choices.
         AdvancedUserChangeForm_init form_fields Role_objects ''roles'' = Some choices \<longrightarrow>
         ''roles'' \<in> dom form_fields \<and>
         (\<forall>r \<in> set choices. slug r \<noteq> ''everyone'' \<and> slug r \<noteq> ''registered''))
   \<and> (\<forall>r \<in> set Role_objects. slug r \<noteq> ''everyone'' \<and> slug r \<noteq> ''registered'' \<longrightarrow>
         r \<in> set (InviteForm_roles Role_objects))"
  by (auto simp: InviteForm_roles_def AdvancedUserChangeForm_init_def exclude_default_roles_def)

theorem C9_assignable_roles_witness:
  "InviteForm_roles [role_A, role_everyone, role_B] = [role_A, role_B]
   \<and> AdvancedUserChangeForm_init [''roles'' \<mapsto> [role_A, role_everyone, role_B]]
        [role_A, role_everyone, role_B] ''roles'' = Some [role_A, role_B]"
  using C9_assignable_roles [of "[role_A, role_everyone, role_B]"
      "[''roles'' \<mapsto> [role_A, role_everyone, role_B]]"]
  by (simp add: InviteForm_roles_def AdvancedUserChangeForm_init_def exclude_default_roles_def
      role_A_def role_B_def role_everyone_def)

section \<open>Role form: empty permission data\<close>

text \<open>
  C10. When the submitted \<open>_perms_\<close> data is absent or empty, the save succeeds,
  the role's allowed and denied sets are the ones it had, and the submitted model fields
  are saved.
\<close>

theorem C10_empty_perms_keeps_sets:
  "cd_perms cd = None \<or> cd_perms cd = Some [] \<Longrightarrow>
     RoleForm_save Permission_objects role_ct r cd = Inr (construct_role r cd)
     \<and> permissions (construct_role r cd) = permissions r
     \<and> restrictions (construct_role r cd) = restrictions r
     \<and> (\<forall>v. cd_slug cd = Some v \<longrightarrow> slug (construct_role r cd) = v)
     \<and> (\<forall>v. cd_name cd = Some v \<longrightarrow> name (construct_role r cd) = v)
     \<and> (\<forall>v. cd_is_staff cd = Some v \<longrightarrow> is_staff (construct_role r cd) = v)"
  by (auto simp: RoleForm_save_def get_default_def construct_role_def)

theorem C10_empty_perms_keeps_sets_witness:
  "cd_perms rename_only = Some []
   \<and> (\<exists>r'. RoleForm_save [perm_delete] 7 role_B rename_only = Inr r'
        \<and> permissions r' = {} \<and> restrictions r' = {perm_delete} \<and> name r' = ''Moderators'')"
proof -
  have h: "cd_perms rename_only = None \<or> cd_perms rename_only = Some []"
    by (simp add: rename_only_def)
  show ?thesis
    using C10_empty_perms_keeps_sets [OF h, of "[perm_delete]" 7 role_B]
    by (simp add: rename_only_def role_B_def)
qed

end
